theory Spec2Isabelle
  imports Main
begin

section \<open>BarrierBoxCallback: a shallow embedding of \<^verbatim>\<open>barrier_box.py\<close>\<close>

text \<open>
  The module builds a box of blocks around the spawn point of a Minecraft agent. It has
  a factory (\<^verbatim>\<open>create_from_conf\<close>), a constructor that validates the block type, a
  generator of \<^verbatim>\<open>/fill\<close> command strings, and a reset hook that sends the commands to
  the simulator.
\<close>

subsection \<open>Python values\<close>

text \<open>
  The values that a configuration mapping holds and that the constructor stores without
  checking their type. Floats and containers are not modelled.
\<close>

datatype pyval = PyNone | PyBool bool | PyInt int | PyStr string

text \<open>
  \<^verbatim>\<open>ValueError\<close> carries its message. \<^verbatim>\<open>TypeError\<close> is what an arithmetic operator
  raises on an operand that is no number; \<^verbatim>\<open>SimulatorError\<close> stands for any exception
  raised inside the simulator.
\<close>

datatype error = ValueError string | TypeError | SimulatorError string

text \<open>Decimal digits of a natural number, most significant first.\<close>

fun str_nat :: "nat \<Rightarrow> string" where
  "str_nat n =
     (if n < 10 then [''0123456789'' ! n]
      else str_nat (n div 10) @ [''0123456789'' ! (n mod 10)])"

declare str_nat.simps [simp del]

text \<open>\<^verbatim>\<open>str(i)\<close> of a Python int, which is also what \<^verbatim>\<open>f"{i}"\<close> inserts.\<close>

definition str_int :: "int \<Rightarrow> string" where
  "str_int i = (if i < 0 then CHR ''-'' # str_nat (nat (- i)) else str_nat (nat i))"

text \<open>\<^verbatim>\<open>str(v)\<close>.\<close>

fun py_str :: "pyval \<Rightarrow> string" where
  "py_str PyNone = ''None''"
| "py_str (PyBool b) = (if b then ''True'' else ''False'')"
| "py_str (PyInt i) = str_int i"
| "py_str (PyStr s) = s"

text \<open>
  \<^verbatim>\<open>repr(v)\<close>: a string is put between single quotes. (Python escapes quotes,
  backslashes and unprintable characters; the module only takes the \<^verbatim>\<open>repr\<close> of the
  three block names, which have none.)
\<close>

fun py_repr :: "pyval \<Rightarrow> string" where
  "py_repr (PyStr s) = [CHR 0x27] @ s @ [CHR 0x27]"
| "py_repr v = py_str v"

text \<open>\<^verbatim>\<open>", ".join(xs)\<close> and \<^verbatim>\<open>str\<close> of a list.\<close>

fun join_comma :: "string list \<Rightarrow> string" where
  "join_comma [] = []"
| "join_comma [x] = x"
| "join_comma (x # y # ys) = x @ '', '' @ join_comma (y # ys)"

definition py_str_list :: "pyval list \<Rightarrow> string" where
  "py_str_list vs = ''['' @ join_comma (map py_repr vs) @ '']''"

text \<open>Truth value of a Python value, as \<^verbatim>\<open>if v:\<close> tests it.\<close>

fun py_truthy :: "pyval \<Rightarrow> bool" where
  "py_truthy PyNone = False"
| "py_truthy (PyBool b) = b"
| "py_truthy (PyInt i) = (i \<noteq> 0)"
| "py_truthy (PyStr s) = (s \<noteq> [])"

text \<open>
  \<^verbatim>\<open>v // d\<close> for an int literal \<open>d\<close> other than 0: floor division, as \<open>div\<close> on \<open>int\<close>
  is. A bool is an int (\<^verbatim>\<open>True\<close> is 1).
\<close>

fun py_floordiv :: "pyval \<Rightarrow> int \<Rightarrow> error + int" where
  "py_floordiv (PyInt i) d = Inr (i div d)"
| "py_floordiv (PyBool b) d = Inr ((if b then 1 else 0) div d)"
| "py_floordiv v d = Inl TypeError"

text \<open>\<^verbatim>\<open>a + v\<close> for an int \<open>a\<close>.\<close>

fun py_add :: "int \<Rightarrow> pyval \<Rightarrow> error + int" where
  "py_add a (PyInt i) = Inr (a + i)"
| "py_add a (PyBool b) = Inr (a + (if b then 1 else 0))"
| "py_add a v = Inl TypeError"

text \<open>\<^verbatim>\<open>d.get(k, dflt)\<close>.\<close>

definition dict_get :: "('k \<rightharpoonup> 'v) \<Rightarrow> 'k \<Rightarrow> 'v \<Rightarrow> 'v" where
  "dict_get d k dflt = (case d k of None \<Rightarrow> dflt | Some v \<Rightarrow> v)"

subsection \<open>The callback object\<close>

text \<open>
  The attributes that \<^verbatim>\<open>__init__\<close> sets. The attribute \<^verbatim>\<open>size\<close> is the field
  \<open>size_box\<close>, since \<open>size\<close> is a constant of HOL.
\<close>

record BarrierBoxCallback =
  size_box :: pyval
  height :: pyval
  block_type :: pyval
  include_floor :: pyval
  include_ceiling :: pyval

definition valid_blocks :: "pyval list" where
  "valid_blocks = [PyStr ''barrier'', PyStr ''bedrock'', PyStr ''glass'']"

text \<open>
  \<^verbatim>\<open>__init__\<close>: the five attributes are stored first, then the block type is checked
  against \<^verbatim>\<open>valid_blocks\<close>. The message is
  \<^verbatim>\<open>f"block_type must be one of {valid_blocks}, got '{self.block_type}'"\<close>.
  The call \<^verbatim>\<open>super().__init__()\<close> goes to the base class, which is another module and
  gets no argument; it is left out.
\<close>

definition init ::
  "pyval \<Rightarrow> pyval \<Rightarrow> pyval \<Rightarrow> pyval \<Rightarrow> pyval \<Rightarrow> error + BarrierBoxCallback" where
  "init size' height' block_type' include_floor' include_ceiling' =
     (let self = \<lparr>size_box = size', height = height', block_type = block_type',
                  include_floor = include_floor', include_ceiling = include_ceiling'\<rparr>
      in if block_type self \<notin> set valid_blocks
         then Inl (ValueError (''block_type must be one of '' @ py_str_list valid_blocks
                     @ '', got '' @ [CHR 0x27] @ py_str (block_type self) @ [CHR 0x27]))
         else Inr self)"

text \<open>
  \<^verbatim>\<open>create_from_conf\<close>. The loader \<^verbatim>\<open>MinecraftCallback.load_data_from_conf\<close> belongs
  to the base class, which is another module: it is a parameter here. It turns a
  configuration source into a mapping from section names to sections.
\<close>

definition create_from_conf ::
  "('src \<Rightarrow> (string \<rightharpoonup> (string \<rightharpoonup> pyval))) \<Rightarrow> 'src \<Rightarrow> error + BarrierBoxCallback option" where
  "create_from_conf load_data_from_conf source =
     (let data = load_data_from_conf source
      in case data ''barrier_box'' of
           Some box_config \<Rightarrow>
             (case init (dict_get box_config ''size'' (PyInt 25))
                        (dict_get box_config ''height'' (PyInt 10))
                        (dict_get box_config ''block_type'' (PyStr ''barrier''))
                        (dict_get box_config ''include_floor'' (PyBool False))
                        (dict_get box_config ''include_ceiling'' (PyBool False)) of
                Inl e \<Rightarrow> Inl e
              | Inr cb \<Rightarrow> Inr (Some cb))
         | None \<Rightarrow> Inr None)"

subsection \<open>The command generator\<close>

text \<open>
  The template that the six f-strings of the generator share:
  \<^verbatim>\<open>f"/fill {x1} {y1} {z1} {x2} {y2} {z2} {block}"\<close>.
\<close>

definition fill_command :: "int \<Rightarrow> int \<Rightarrow> int \<Rightarrow> int \<Rightarrow> int \<Rightarrow> int \<Rightarrow> string \<Rightarrow> string" where
  "fill_command x1 y1 z1 x2 y2 z2 block =
     ''/fill '' @ str_int x1 @ '' '' @ str_int y1 @ '' '' @ str_int z1 @ '' ''
       @ str_int x2 @ '' '' @ str_int y2 @ '' '' @ str_int z2 @ '' '' @ block"

text \<open>
  \<^verbatim>\<open>_generate_box_commands\<close>. The method is given the object and returns it next to
  the list, so that what it does to the object is part of its result. The local list
  \<^verbatim>\<open>commands\<close> grows by one \<^verbatim>\<open>append\<close> at a time.
\<close>

definition generate_box_commands ::
  "BarrierBoxCallback \<Rightarrow> int \<Rightarrow> int \<Rightarrow> int \<Rightarrow> error + (string list \<times> BarrierBoxCallback)" where
  "generate_box_commands self center_x center_z base_y =
     (case py_floordiv (size_box self) 2 of
        Inl e \<Rightarrow> Inl e
      | Inr half_size \<Rightarrow>
          (let block = ''minecraft:'' @ py_str (block_type self);
               x_min = center_x - half_size;
               x_max = center_x + half_size;
               z_min = center_z - half_size;
               z_max = center_z + half_size;
               y_min = base_y
           in (case py_add base_y (height self) of
                 Inl e \<Rightarrow> Inl e
               | Inr y_max \<Rightarrow>
                   (let commands = [];
                        commands = commands @ [fill_command x_min y_min z_min x_max y_max z_min block];
                        commands = commands @ [fill_command x_min y_min z_max x_max y_max z_max block];
                        commands = commands @ [fill_command x_min y_min z_min x_min y_max z_max block];
                        commands = commands @ [fill_command x_max y_min z_min x_max y_max z_max block];
                        commands = (if py_truthy (include_floor self)
                                    then commands @ [fill_command x_min y_min z_min x_max y_min z_max block]
                                    else commands);
                        commands = (if py_truthy (include_ceiling self)
                                    then commands @ [fill_command x_min y_max z_min x_max y_max z_max block]
                                    else commands)
                    in Inr (commands, self)))))"

subsection \<open>The reset hook\<close>

text \<open>
  The simulator is used through two calls, \<^verbatim>\<open>sim.env.execute_cmd\<close> and
  \<^verbatim>\<open>sim._wrap_obs_info\<close>. Both act on the simulator's state \<open>'w\<close> and may raise.
\<close>

record ('w, 'o, 'r, 'i) simulator =
  execute_cmd :: "string \<Rightarrow> 'w \<Rightarrow> error + (('o \<times> 'r \<times> bool \<times> 'i) \<times> 'w)"
  wrap_obs_info :: "'o \<Rightarrow> 'i \<Rightarrow> 'w \<Rightarrow> error + (('o \<times> 'i) \<times> 'w)"

text \<open>
  The loop \<^verbatim>\<open>for command in commands: obs, reward, done, info = sim.env.execute_cmd(command)\<close>:
  each round rebinds \<^verbatim>\<open>obs\<close> and \<^verbatim>\<open>info\<close>; an exception ends it.
\<close>

fun execute_all ::
  "('w, 'o, 'r, 'i) simulator \<Rightarrow> string list \<Rightarrow> 'o \<Rightarrow> 'i \<Rightarrow> 'w \<Rightarrow> error + (('o \<times> 'i) \<times> 'w)" where
  "execute_all sim [] obs info w = Inr ((obs, info), w)"
| "execute_all sim (command # commands) obs info w =
     (case execute_cmd sim command w of
        Inl e \<Rightarrow> Inl e
      | Inr ((obs', reward, done, info'), w') \<Rightarrow> execute_all sim commands obs' info' w')"

text \<open>
  \<^verbatim>\<open>after_reset\<close>. The result is the wrapped pair, with the object and the simulator's
  state after the calls.
\<close>

definition after_reset ::
  "BarrierBoxCallback \<Rightarrow> ('w, 'o, 'r, 'i) simulator \<Rightarrow> 'w \<Rightarrow> 'o \<Rightarrow> 'i
     \<Rightarrow> error + (('o \<times> 'i) \<times> BarrierBoxCallback \<times> 'w)" where
  "after_reset self sim w obs info =
     (case py_floordiv (size_box self) 2 of
        Inl e \<Rightarrow> Inl e
      | Inr half_size \<Rightarrow>
          (case generate_box_commands self 0 0 half_size of
             Inl e \<Rightarrow> Inl e
           | Inr (commands, self') \<Rightarrow>
               (case execute_all sim commands obs info w of
                  Inl e \<Rightarrow> Inl e
                | Inr ((obs', info'), w') \<Rightarrow>
                    (case wrap_obs_info sim obs' info' w' of
                       Inl e \<Rightarrow> Inl e
                     | Inr ((obs'', info''), w'') \<Rightarrow> Inr ((obs'', info''), self', w'')))))"

text \<open>
  A simulator that only records the commands it is given, in the order it gets them.
\<close>

definition recording_simulator :: "(string list, unit, unit, unit) simulator" where
  "recording_simulator =
     \<lparr>execute_cmd = (\<lambda>command w. Inr (((), (), False, ()), w @ [command])),
      wrap_obs_info = (\<lambda>obs info w. Inr ((obs, info), w))\<rparr>"

section \<open>Properties\<close>

subsection \<open>Auxiliary facts\<close>

text \<open>
  With an integer size and an integer height the generator returns: the four walls, then
  the floor and the ceiling if they are asked for, and the object as it was.
\<close>

lemma generate_box_commands_int:
  assumes "size_box self = PyInt s" and "height self = PyInt h"
  shows "generate_box_commands self x z y =
     Inr ([fill_command (x - s div 2) y (z - s div 2) (x + s div 2) (y + h) (z - s div 2)
             (''minecraft:'' @ py_str (block_type self)),
           fill_command (x - s div 2) y (z + s div 2) (x + s div 2) (y + h) (z + s div 2)
             (''minecraft:'' @ py_str (block_type self)),
           fill_command (x - s div 2) y (z - s div 2) (x - s div 2) (y + h) (z + s div 2)
             (''minecraft:'' @ py_str (block_type self)),
           fill_command (x + s div 2) y (z - s div 2) (x + s div 2) (y + h) (z + s div 2)
             (''minecraft:'' @ py_str (block_type self))]
          @ (if py_truthy (include_floor self)
             then [fill_command (x - s div 2) y (z - s div 2) (x + s div 2) y (z + s div 2)
                     (''minecraft:'' @ py_str (block_type self))]
             else [])
          @ (if py_truthy (include_ceiling self)
             then [fill_command (x - s div 2) (y + h) (z - s div 2) (x + s div 2) (y + h)
                     (z + s div 2) (''minecraft:'' @ py_str (block_type self))]
             else []),
          self)"
  using assms by (simp add: generate_box_commands_def Let_def)

lemma generate_box_commands_self:
  "generate_box_commands self x z y = Inr (cmds, self') \<Longrightarrow> self' = self"
  by (auto simp: generate_box_commands_def Let_def split: sum.splits)

lemma generate_box_commands_nonempty:
  "generate_box_commands self x z y = Inr (cmds, self') \<Longrightarrow> cmds \<noteq> []"
  by (auto simp: generate_box_commands_def Let_def split: sum.splits if_splits)

text \<open>The first round of the loop overwrites \<^verbatim>\<open>obs\<close> and \<^verbatim>\<open>info\<close>.\<close>

lemma execute_all_nonempty:
  "commands \<noteq> [] \<Longrightarrow>
     execute_all sim commands obs1 info1 w = execute_all sim commands obs2 info2 w"
  by (cases commands) simp_all

lemma init_valid:
  "bt \<in> set valid_blocks \<Longrightarrow>
     init s h bt fl ce =
       Inr \<lparr>size_box = s, height = h, block_type = bt, include_floor = fl,
            include_ceiling = ce\<rparr>"
  by (simp add: init_def)

lemma init_invalid:
  "bt \<notin> set valid_blocks \<Longrightarrow>
     init s h bt fl ce =
       Inl (ValueError (''block_type must be one of ['barrier', 'bedrock', 'glass'], got ''
              @ [CHR 0x27] @ py_str bt @ [CHR 0x27]))"
  by (simp add: init_def valid_blocks_def py_str_list_def)

text \<open>
  \<open>str_int\<close> writes a number with decimal digits and at most a leading minus sign: no
  space, so the fields of a command stay apart.
\<close>

lemma digit_mem: "k < 10 \<Longrightarrow> ''0123456789'' ! k \<in> set ''0123456789''"
  by (rule nth_mem) simp

lemma str_nat_digits: "c \<in> set (str_nat n) \<Longrightarrow> c \<in> set ''0123456789''"
proof (induction n rule: str_nat.induct)
  case (1 n)
  show ?case
  proof (cases "n < 10")
    case True
    then have "str_nat n = [''0123456789'' ! n]" by (subst str_nat.simps) simp
    with "1.prems" have "c = ''0123456789'' ! n" by simp
    then show ?thesis using digit_mem [OF True] by (simp only:)
  next
    case False
    then have "str_nat n = str_nat (n div 10) @ [''0123456789'' ! (n mod 10)]"
      by (subst str_nat.simps) simp
    with "1.prems" consider "c \<in> set (str_nat (n div 10))" | "c = ''0123456789'' ! (n mod 10)"
      by (simp only: set_append list.set Un_iff insert_iff empty_iff) fast
    then show ?thesis
    proof cases
      case 1
      then show ?thesis by (rule "1.IH" [OF False])
    next
      case 2
      have "n mod 10 < 10" by simp
      from digit_mem [OF this] 2 show ?thesis by (simp only:)
    qed
  qed
qed

lemma str_nat_nonempty: "str_nat n \<noteq> []"
  by (subst str_nat.simps) simp

lemma str_int_digits: "c \<in> set (str_int i) \<Longrightarrow> c \<in> set ''-0123456789''"
proof (cases "i < 0")
  case True
  assume "c \<in> set (str_int i)"
  with True have "c = CHR ''-'' \<or> c \<in> set (str_nat (nat (- i)))"
    by (simp add: str_int_def)
  then show ?thesis
  proof
    assume "c = CHR ''-''"
    then show ?thesis by simp
  next
    assume "c \<in> set (str_nat (nat (- i)))"
    then have "c \<in> set ''0123456789''" by (rule str_nat_digits)
    then show ?thesis by (simp only: list.set insert_iff) fast
  qed
next
  case False
  assume "c \<in> set (str_int i)"
  with False have "c \<in> set (str_nat (nat i))" by (simp add: str_int_def)
  then have "c \<in> set ''0123456789''" by (rule str_nat_digits)
  then show ?thesis by (simp only: list.set insert_iff) fast
qed

lemma str_int_nonempty: "str_int i \<noteq> []"
  by (simp add: str_int_def str_nat_nonempty)

text \<open>
  On the recording simulator the reset hook leaves the commands of the generator, in
  order; the generator is called with \<open>s div 2\<close> as its base elevation.
\<close>

lemma execute_all_recording:
  "execute_all recording_simulator commands obs info w = Inr (((), ()), w @ commands)"
  by (induction commands arbitrary: obs info w) (simp_all add: recording_simulator_def)

lemma after_reset_recording:
  assumes "py_floordiv (size_box self) 2 = Inr half_size"
    and "generate_box_commands self 0 0 half_size = Inr (commands, self')"
  shows "after_reset self recording_simulator w obs info = Inr (((), ()), self', w @ commands)"
  using assms by (simp add: after_reset_def execute_all_recording) (simp add: recording_simulator_def)

lemma after_reset_base_elevation:
  assumes "size_box self = PyInt s" and "height self = PyInt h"
  shows "\<exists>rest. after_reset self recording_simulator [] () () =
     Inr (((), ()), self,
          fill_command (- (s div 2)) (s div 2) (- (s div 2)) (s div 2) (s div 2 + h) (- (s div 2))
             (''minecraft:'' @ py_str (block_type self)) # rest)"
proof -
  have half: "py_floordiv (size_box self) 2 = Inr (s div 2)"
    using assms(1) by simp
  from generate_box_commands_int [OF assms, of 0 0 "s div 2"]
  obtain rest where "generate_box_commands self 0 0 (s div 2) =
     Inr (fill_command (- (s div 2)) (s div 2) (- (s div 2)) (s div 2) (s div 2 + h) (- (s div 2))
             (''minecraft:'' @ py_str (block_type self)) # rest, self)"
    by simp
  from after_reset_recording [OF half this, of "[]" "()" "()"] show ?thesis by simp
qed

subsection \<open>The claims\<close>

text \<open>
  C1. The claim: the reset hook generates its commands centred at (0, 0) with base
  elevation 0, so that with the defaults (size 25, height 10) every command spans y from 0
  to 10. The hook passes \<^verbatim>\<open>half_size\<close> where the generator expects \<^verbatim>\<open>base_y\<close>:
  with the defaults the simulator is sent four commands that span y from 12 to 22.
\<close>

theorem after_reset_default_commands:
  "after_reset
     \<lparr>size_box = PyInt 25, height = PyInt 10, block_type = PyStr ''barrier'',
      include_floor = PyBool False, include_ceiling = PyBool False\<rparr>
     recording_simulator [] () ()
   = Inr (((), ()),
          \<lparr>size_box = PyInt 25, height = PyInt 10, block_type = PyStr ''barrier'',
           include_floor = PyBool False, include_ceiling = PyBool False\<rparr>,
          [''/fill -12 12 -12 12 22 -12 minecraft:barrier'',
           ''/fill -12 12 12 12 22 12 minecraft:barrier'',
           ''/fill -12 12 -12 -12 22 12 minecraft:barrier'',
           ''/fill 12 12 -12 12 22 12 minecraft:barrier''])"
  by (simp add: after_reset_def generate_box_commands_def Let_def fill_command_def str_int_def
      str_nat.simps recording_simulator_def)

text \<open>
  C2. Construction raises if and only if the block type is none of barrier, bedrock and
  glass. The error is a \<^verbatim>\<open>ValueError\<close> whose message cites the valid set and the
  offending value. Whatever the size, the height and the two flags are (of any type, of
  any sign), construction with a valid block type returns an object.
\<close>

theorem init_raises_iff_invalid_block_type:
  "((\<exists>e. init s h bt fl ce = Inl e) \<longleftrightarrow>
      bt \<notin> {PyStr ''barrier'', PyStr ''bedrock'', PyStr ''glass''})
   \<and> (bt \<notin> {PyStr ''barrier'', PyStr ''bedrock'', PyStr ''glass''} \<longrightarrow>
        init s h bt fl ce =
          Inl (ValueError (''block_type must be one of ['barrier', 'bedrock', 'glass'], got ''
                 @ [CHR 0x27] @ py_str bt @ [CHR 0x27])))
   \<and> (bt \<in> {PyStr ''barrier'', PyStr ''bedrock'', PyStr ''glass''} \<longrightarrow>
        (\<exists>cb. init s h bt fl ce = Inr cb))"
proof (cases "bt \<in> set valid_blocks")
  case True
  then have "init s h bt fl ce =
       Inr \<lparr>size_box = s, height = h, block_type = bt, include_floor = fl,
            include_ceiling = ce\<rparr>"
    by (rule init_valid)
  with True show ?thesis by (simp add: valid_blocks_def)
next
  case False
  then have "init s h bt fl ce =
       Inl (ValueError (''block_type must be one of ['barrier', 'bedrock', 'glass'], got ''
              @ [CHR 0x27] @ py_str bt @ [CHR 0x27]))"
    by (rule init_invalid)
  with False show ?thesis by (simp add: valid_blocks_def)
qed

theorem init_raises_iff_invalid_block_type_witness:
  "init (PyInt (- 4)) (PyStr ''tall'') (PyStr ''wood'') PyNone (PyBool True) =
     Inl (ValueError (''block_type must be one of ['barrier', 'bedrock', 'glass'], got 'wood''
            @ [CHR 0x27]))
   \<and> (\<exists>cb. init (PyInt (- 4)) (PyStr ''tall'') (PyStr ''glass'') PyNone (PyBool True) = Inr cb)"
  using init_raises_iff_invalid_block_type [of "PyInt (- 4)" "PyStr ''tall''" "PyStr ''wood''" PyNone "PyBool True"]
    init_raises_iff_invalid_block_type [of "PyInt (- 4)" "PyStr ''tall''" "PyStr ''glass''" PyNone "PyBool True"]
  by simp

text \<open>
  C3. For every centre \<open>(x, z)\<close>, base elevation \<open>y\<close>, integer size \<open>s\<close> and integer
  height \<open>h\<close>, with \<open>half = s div 2\<close>: the first four commands are the north wall (the
  slab at \<open>z - half\<close>), the south wall (at \<open>z + half\<close>), the west wall (at \<open>x - half\<close>)
  and the east wall (at \<open>x + half\<close>); each spans the whole footprint on the other
  horizontal axis, and y from \<open>y\<close> to \<open>y + h\<close>.
\<close>

theorem wall_commands_span:
  assumes "size_box self = PyInt s" and "height self = PyInt h"
  shows "\<exists>cmds. generate_box_commands self x z y = Inr (cmds, self) \<and>
     take 4 cmds =
       [fill_command (x - s div 2) y (z - s div 2) (x + s div 2) (y + h) (z - s div 2)
          (''minecraft:'' @ py_str (block_type self)),
        fill_command (x - s div 2) y (z + s div 2) (x + s div 2) (y + h) (z + s div 2)
          (''minecraft:'' @ py_str (block_type self)),
        fill_command (x - s div 2) y (z - s div 2) (x - s div 2) (y + h) (z + s div 2)
          (''minecraft:'' @ py_str (block_type self)),
        fill_command (x + s div 2) y (z - s div 2) (x + s div 2) (y + h) (z + s div 2)
          (''minecraft:'' @ py_str (block_type self))]"
  by (simp add: generate_box_commands_int [OF assms])

theorem wall_commands_span_witness:
  "\<exists>cmds. generate_box_commands
       \<lparr>size_box = PyInt 7, height = PyInt 3, block_type = PyStr ''glass'',
        include_floor = PyBool True, include_ceiling = PyBool False\<rparr> 100 (- 40) 64
       = Inr (cmds, \<lparr>size_box = PyInt 7, height = PyInt 3, block_type = PyStr ''glass'',
                     include_floor = PyBool True, include_ceiling = PyBool False\<rparr>) \<and>
     take 4 cmds =
       [''/fill 97 64 -43 103 67 -43 minecraft:glass'',
        ''/fill 97 64 -37 103 67 -37 minecraft:glass'',
        ''/fill 97 64 -43 97 67 -37 minecraft:glass'',
        ''/fill 103 64 -43 103 67 -37 minecraft:glass'']"
  using wall_commands_span [of "\<lparr>size_box = PyInt 7, height = PyInt 3, block_type = PyStr ''glass'',
        include_floor = PyBool True, include_ceiling = PyBool False\<rparr>" 7 3 100 "- 40" 64]
  by (simp add: fill_command_def str_int_def str_nat.simps)

text \<open>
  C4. For every configuration with an integer size and height, the generator returns the
  list north, south, west, east, then one floor command (the slab at \<open>y\<close>) if
  \<^verbatim>\<open>include_floor\<close> is true, then one ceiling command (the slab at \<open>y + h\<close>) if
  \<^verbatim>\<open>include_ceiling\<close> is true: 4, 5 or 6 commands.
\<close>

theorem command_list_order:
  assumes "size_box self = PyInt s" and "height self = PyInt h"
  shows "\<exists>cmds. generate_box_commands self x z y = Inr (cmds, self) \<and>
     cmds =
       [fill_command (x - s div 2) y (z - s div 2) (x + s div 2) (y + h) (z - s div 2)
          (''minecraft:'' @ py_str (block_type self)),
        fill_command (x - s div 2) y (z + s div 2) (x + s div 2) (y + h) (z + s div 2)
          (''minecraft:'' @ py_str (block_type self)),
        fill_command (x - s div 2) y (z - s div 2) (x - s div 2) (y + h) (z + s div 2)
          (''minecraft:'' @ py_str (block_type self)),
        fill_command (x + s div 2) y (z - s div 2) (x + s div 2) (y + h) (z + s div 2)
          (''minecraft:'' @ py_str (block_type self))]
       @ (if py_truthy (include_floor self)
          then [fill_command (x - s div 2) y (z - s div 2) (x + s div 2) y (z + s div 2)
                  (''minecraft:'' @ py_str (block_type self))]
          else [])
       @ (if py_truthy (include_ceiling self)
          then [fill_command (x - s div 2) (y + h) (z - s div 2) (x + s div 2) (y + h)
                  (z + s div 2) (''minecraft:'' @ py_str (block_type self))]
          else []) \<and>
     length cmds =
       4 + (if py_truthy (include_floor self) then 1 else 0)
         + (if py_truthy (include_ceiling self) then 1 else 0)"
  by (simp add: generate_box_commands_int [OF assms])

theorem command_list_order_witness:
  "\<exists>cmds. generate_box_commands
       \<lparr>size_box = PyInt 30, height = PyInt 15, block_type = PyStr ''bedrock'',
        include_floor = PyBool True, include_ceiling = PyBool True\<rparr> 0 0 0
       = Inr (cmds, \<lparr>size_box = PyInt 30, height = PyInt 15, block_type = PyStr ''bedrock'',
                     include_floor = PyBool True, include_ceiling = PyBool True\<rparr>) \<and>
     cmds =
       [''/fill -15 0 -15 15 15 -15 minecraft:bedrock'',
        ''/fill -15 0 15 15 15 15 minecraft:bedrock'',
        ''/fill -15 0 -15 -15 15 15 minecraft:bedrock'',
        ''/fill 15 0 -15 15 15 15 minecraft:bedrock'',
        ''/fill -15 0 -15 15 0 15 minecraft:bedrock'',
        ''/fill -15 15 -15 15 15 15 minecraft:bedrock''] \<and>
     length cmds = 6"
  using command_list_order [of "\<lparr>size_box = PyInt 30, height = PyInt 15, block_type = PyStr ''bedrock'',
        include_floor = PyBool True, include_ceiling = PyBool True\<rparr>" 30 15 0 0 0]
  by (simp add: fill_command_def str_int_def str_nat.simps)

text \<open>
  C5. The factory returns \<^verbatim>\<open>None\<close> when the loaded mapping has no key
  \<^verbatim>\<open>barrier_box\<close>; when the key is there with an empty mapping, it returns a callback
  with the defaults: size 25, height 10, block type barrier, no floor, no ceiling.
\<close>

theorem create_from_conf_absent_or_empty:
  "(load_data_from_conf source ''barrier_box'' = None \<longrightarrow>
      create_from_conf load_data_from_conf source = Inr None)
   \<and> (load_data_from_conf source ''barrier_box'' = Some Map.empty \<longrightarrow>
      create_from_conf load_data_from_conf source =
        Inr (Some \<lparr>size_box = PyInt 25, height = PyInt 10, block_type = PyStr ''barrier'',
                   include_floor = PyBool False, include_ceiling = PyBool False\<rparr>))"
  by (simp add: create_from_conf_def dict_get_def init_valid valid_blocks_def)

theorem create_from_conf_absent_or_empty_witness:
  "create_from_conf (\<lambda>source. source) [''seed'' \<mapsto> [''value'' \<mapsto> PyInt 7]] = Inr None
   \<and> create_from_conf (\<lambda>source. source) [''barrier_box'' \<mapsto> Map.empty] =
        Inr (Some \<lparr>size_box = PyInt 25, height = PyInt 10, block_type = PyStr ''barrier'',
                   include_floor = PyBool False, include_ceiling = PyBool False\<rparr>)"
  using create_from_conf_absent_or_empty [of "\<lambda>source. source" "[''seed'' \<mapsto> [''value'' \<mapsto> PyInt 7]]"]
    create_from_conf_absent_or_empty [of "\<lambda>source. source" "[''barrier_box'' \<mapsto> Map.empty]"]
  by simp

text \<open>
  C6. For each of the three valid block types and every size, height and flags,
  construction succeeds, and every attribute of the object is the argument that was
  given for it.
\<close>

theorem init_stores_arguments:
  assumes "bt \<in> {PyStr ''barrier'', PyStr ''bedrock'', PyStr ''glass''}"
  shows "\<exists>cb. init s h bt fl ce = Inr cb \<and> size_box cb = s \<and> height cb = h \<and>
     block_type cb = bt \<and> include_floor cb = fl \<and> include_ceiling cb = ce"
proof -
  from assms have "bt \<in> set valid_blocks" by (simp add: valid_blocks_def)
  then show ?thesis by (simp add: init_valid)
qed

theorem init_stores_arguments_witness:
  "\<exists>cb. init (PyInt 0) (PyInt (- 2)) (PyStr ''bedrock'') (PyBool True) (PyStr ''yes'') = Inr cb \<and>
     size_box cb = PyInt 0 \<and> height cb = PyInt (- 2) \<and> block_type cb = PyStr ''bedrock'' \<and>
     include_floor cb = PyBool True \<and> include_ceiling cb = PyStr ''yes''"
  using init_stores_arguments [of "PyStr ''bedrock''" "PyInt 0" "PyInt (- 2)" "PyBool True" "PyStr ''yes''"]
  by simp

text \<open>
  C7. The generator is a function of its arguments and of the stored configuration. When
  a call returns a list, the object it leaves has the same five attributes as before, and
  a second call with the same arguments on that object returns the same list.
\<close>

theorem generate_box_commands_pure:
  assumes "generate_box_commands self x z y = Inr (cmds, self')"
  shows "generate_box_commands self' x z y = Inr (cmds, self') \<and>
     size_box self' = size_box self \<and> height self' = height self \<and>
     block_type self' = block_type self \<and> include_floor self' = include_floor self \<and>
     include_ceiling self' = include_ceiling self"
proof -
  from assms have "self' = self" by (rule generate_box_commands_self)
  with assms show ?thesis by simp
qed

theorem generate_box_commands_pure_witness:
  "generate_box_commands
     \<lparr>size_box = PyInt 4, height = PyInt 2, block_type = PyStr ''glass'',
      include_floor = PyBool False, include_ceiling = PyBool True\<rparr> 1 2 3
   = Inr ([''/fill -1 3 0 3 5 0 minecraft:glass'',
           ''/fill -1 3 4 3 5 4 minecraft:glass'',
           ''/fill -1 3 0 -1 5 4 minecraft:glass'',
           ''/fill 3 3 0 3 5 4 minecraft:glass'',
           ''/fill -1 5 0 3 5 4 minecraft:glass''],
          \<lparr>size_box = PyInt 4, height = PyInt 2, block_type = PyStr ''glass'',
           include_floor = PyBool False, include_ceiling = PyBool True\<rparr>)"
proof -
  have run: "generate_box_commands
     \<lparr>size_box = PyInt 4, height = PyInt 2, block_type = PyStr ''glass'',
      include_floor = PyBool False, include_ceiling = PyBool True\<rparr> 1 2 3
   = Inr ([''/fill -1 3 0 3 5 0 minecraft:glass'',
           ''/fill -1 3 4 3 5 4 minecraft:glass'',
           ''/fill -1 3 0 -1 5 4 minecraft:glass'',
           ''/fill 3 3 0 3 5 4 minecraft:glass'',
           ''/fill -1 5 0 3 5 4 minecraft:glass''],
          \<lparr>size_box = PyInt 4, height = PyInt 2, block_type = PyStr ''glass'',
           include_floor = PyBool False, include_ceiling = PyBool True\<rparr>)"
    by (simp add: generate_box_commands_def Let_def fill_command_def str_int_def
        str_nat.simps)
  from generate_box_commands_pure [OF run] show ?thesis by simp
qed

text \<open>
  C8, as amended. The walls lie at \<open>centre - half\<close> and \<open>centre + half\<close> on each
  horizontal axis, with \<open>half = s div 2\<close>. A fill takes its two corners in either order,
  so the footprint covers the \<open>2 * \<bar>half\<bar> + 1\<close> block positions between them. For a
  size that is not negative this is \<open>2 * (s div 2) + 1\<close>, the number of integers from
  \<open>centre - half\<close> to \<open>centre + half\<close>; that number is \<open>s\<close> exactly when \<open>s\<close> is odd and
  \<open>s + 1\<close> exactly when \<open>s\<close> is even. For a negative size, which the constructor
  accepts, the two corners are swapped and the count is never \<open>2 * (s div 2) + 1\<close>.
\<close>

theorem footprint_span:
  assumes "size_box self = PyInt s" and "height self = PyInt h"
  shows "\<exists>cmds. generate_box_commands self x z y = Inr (cmds, self) \<and>
     take 4 cmds =
       [fill_command (x - s div 2) y (z - s div 2) (x + s div 2) (y + h) (z - s div 2)
          (''minecraft:'' @ py_str (block_type self)),
        fill_command (x - s div 2) y (z + s div 2) (x + s div 2) (y + h) (z + s div 2)
          (''minecraft:'' @ py_str (block_type self)),
        fill_command (x - s div 2) y (z - s div 2) (x - s div 2) (y + h) (z + s div 2)
          (''minecraft:'' @ py_str (block_type self)),
        fill_command (x + s div 2) y (z - s div 2) (x + s div 2) (y + h) (z + s div 2)
          (''minecraft:'' @ py_str (block_type self))] \<and>
     int (card {min (x - s div 2) (x + s div 2) .. max (x - s div 2) (x + s div 2)})
       = 2 * \<bar>s div 2\<bar> + 1 \<and>
     int (card {min (z - s div 2) (z + s div 2) .. max (z - s div 2) (z + s div 2)})
       = 2 * \<bar>s div 2\<bar> + 1 \<and>
     (0 \<le> s \<longrightarrow>
        int (card {x - s div 2 .. x + s div 2}) = 2 * (s div 2) + 1 \<and>
        int (card {z - s div 2 .. z + s div 2}) = 2 * (s div 2) + 1 \<and>
        2 * \<bar>s div 2\<bar> + 1 = 2 * (s div 2) + 1) \<and>
     (2 * (s div 2) + 1 = s \<longleftrightarrow> odd s) \<and>
     (2 * (s div 2) + 1 = s + 1 \<longleftrightarrow> even s) \<and>
     (s < 0 \<longrightarrow> 2 * \<bar>s div 2\<bar> + 1 \<noteq> 2 * (s div 2) + 1)"
proof -
  have odd_case: "2 * (s div 2) + 1 = s \<longleftrightarrow> odd s"
    by presburger
  have even_case: "2 * (s div 2) + 1 = s + 1 \<longleftrightarrow> even s"
    by presburger
  have count: "0 \<le> s \<Longrightarrow> int (card {c - s div 2 .. c + s div 2}) = 2 * (s div 2) + 1"
    for c :: int
    by simp
  have either: "int (card {min (c - k) (c + k) .. max (c - k) (c + k)}) = 2 * \<bar>k\<bar> + 1"
    for c k :: int
    by (cases "0 \<le> k") (simp_all add: min_def max_def)
  have nonneg: "0 \<le> s \<Longrightarrow> 2 * \<bar>s div 2\<bar> + 1 = 2 * (s div 2) + 1"
    by simp
  have neg: "s < 0 \<Longrightarrow> 2 * \<bar>s div 2\<bar> + 1 \<noteq> 2 * (s div 2) + 1"
    by presburger
  from odd_case even_case count either nonneg neg show ?thesis
    by (simp add: generate_box_commands_int [OF assms])
qed

theorem footprint_span_witness:
  "(\<exists>cmds. generate_box_commands
       \<lparr>size_box = PyInt 30, height = PyInt 15, block_type = PyStr ''bedrock'',
        include_floor = PyBool False, include_ceiling = PyBool False\<rparr> 0 0 0
       = Inr (cmds, \<lparr>size_box = PyInt 30, height = PyInt 15, block_type = PyStr ''bedrock'',
                     include_floor = PyBool False, include_ceiling = PyBool False\<rparr>) \<and>
     take 4 cmds =
       [''/fill -15 0 -15 15 15 -15 minecraft:bedrock'',
        ''/fill -15 0 15 15 15 15 minecraft:bedrock'',
        ''/fill -15 0 -15 -15 15 15 minecraft:bedrock'',
        ''/fill 15 0 -15 15 15 15 minecraft:bedrock''] \<and>
     int (card {- 15 .. 15 :: int}) = 30 + 1)
   \<and> (\<exists>cmds. generate_box_commands
       \<lparr>size_box = PyInt (- 5), height = PyInt 10, block_type = PyStr ''barrier'',
        include_floor = PyBool False, include_ceiling = PyBool False\<rparr> 0 0 0
       = Inr (cmds, \<lparr>size_box = PyInt (- 5), height = PyInt 10, block_type = PyStr ''barrier'',
                     include_floor = PyBool False, include_ceiling = PyBool False\<rparr>) \<and>
     take 4 cmds =
       [''/fill 3 0 3 -3 10 3 minecraft:barrier'',
        ''/fill 3 0 -3 -3 10 -3 minecraft:barrier'',
        ''/fill 3 0 3 3 10 -3 minecraft:barrier'',
        ''/fill -3 0 3 -3 10 -3 minecraft:barrier''] \<and>
     int (card {min 3 (- 3) .. max 3 (- 3 :: int)}) = 2 * 3 + 1)"
proof (rule conjI)
  from footprint_span [of "\<lparr>size_box = PyInt 30, height = PyInt 15,
        block_type = PyStr ''bedrock'', include_floor = PyBool False,
        include_ceiling = PyBool False\<rparr>" 30 15 0 0 0]
  show "\<exists>cmds. generate_box_commands
       \<lparr>size_box = PyInt 30, height = PyInt 15, block_type = PyStr ''bedrock'',
        include_floor = PyBool False, include_ceiling = PyBool False\<rparr> 0 0 0
       = Inr (cmds, \<lparr>size_box = PyInt 30, height = PyInt 15, block_type = PyStr ''bedrock'',
                     include_floor = PyBool False, include_ceiling = PyBool False\<rparr>) \<and>
     take 4 cmds =
       [''/fill -15 0 -15 15 15 -15 minecraft:bedrock'',
        ''/fill -15 0 15 15 15 15 minecraft:bedrock'',
        ''/fill -15 0 -15 -15 15 15 minecraft:bedrock'',
        ''/fill 15 0 -15 15 15 15 minecraft:bedrock''] \<and>
     int (card {- 15 .. 15 :: int}) = 30 + 1"
    by (simp add: fill_command_def str_int_def str_nat.simps)
next
  from footprint_span [of "\<lparr>size_box = PyInt (- 5), height = PyInt 10,
        block_type = PyStr ''barrier'', include_floor = PyBool False,
        include_ceiling = PyBool False\<rparr>" "- 5" 10 0 0 0]
  show "\<exists>cmds. generate_box_commands
       \<lparr>size_box = PyInt (- 5), height = PyInt 10, block_type = PyStr ''barrier'',
        include_floor = PyBool False, include_ceiling = PyBool False\<rparr> 0 0 0
       = Inr (cmds, \<lparr>size_box = PyInt (- 5), height = PyInt 10, block_type = PyStr ''barrier'',
                     include_floor = PyBool False, include_ceiling = PyBool False\<rparr>) \<and>
     take 4 cmds =
       [''/fill 3 0 3 -3 10 3 minecraft:barrier'',
        ''/fill 3 0 -3 -3 10 -3 minecraft:barrier'',
        ''/fill 3 0 3 3 10 -3 minecraft:barrier'',
        ''/fill -3 0 3 -3 10 -3 minecraft:barrier''] \<and>
     int (card {min 3 (- 3) .. max 3 (- 3 :: int)}) = 2 * 3 + 1"
    by (simp add: fill_command_def str_int_def str_nat.simps)
qed

text \<open>
  C8 as it was stated, for every size, fails at size \<open>-5\<close>: \<open>half\<close> is \<open>-3\<close>, the walls
  lie at 3 and \<open>-3\<close>, there are 7 block positions between them (and none in the range
  from 3 up to \<open>-3\<close>), while \<open>2 * (s div 2) + 1\<close> is \<open>-5\<close>.
\<close>

theorem footprint_span_counterexample:
  "generate_box_commands
     \<lparr>size_box = PyInt (- 5), height = PyInt 10, block_type = PyStr ''barrier'',
      include_floor = PyBool False, include_ceiling = PyBool False\<rparr> 0 0 0
   = Inr ([''/fill 3 0 3 -3 10 3 minecraft:barrier'',
           ''/fill 3 0 -3 -3 10 -3 minecraft:barrier'',
           ''/fill 3 0 3 3 10 -3 minecraft:barrier'',
           ''/fill -3 0 3 -3 10 -3 minecraft:barrier''],
          \<lparr>size_box = PyInt (- 5), height = PyInt 10, block_type = PyStr ''barrier'',
           include_floor = PyBool False, include_ceiling = PyBool False\<rparr>)
   \<and> 2 * ((- 5) div 2) + 1 = (- 5 :: int)
   \<and> int (card {min 3 (- 3) .. max 3 (- 3 :: int)}) = 7
   \<and> int (card {3 .. - 3 :: int}) = 0
   \<and> int (card {min 3 (- 3) .. max 3 (- 3 :: int)}) \<noteq> 2 * ((- 5) div 2) + 1
   \<and> int (card {3 .. - 3 :: int}) \<noteq> 2 * ((- 5) div 2) + 1"
  by (simp add: generate_box_commands_def Let_def fill_command_def str_int_def
      str_nat.simps)

text \<open>
  C9. What the reset hook returns does not depend on the \<^verbatim>\<open>obs\<close> and \<^verbatim>\<open>info\<close> it
  is given: the generator never returns an empty list, so the first command executed
  overwrites both. Two calls on the same simulator, in the same state, that differ only in
  these two arguments give the same result.
\<close>

theorem after_reset_ignores_obs_info:
  "after_reset self sim w obs1 info1 = after_reset self sim w obs2 info2"
proof (cases "py_floordiv (size_box self) 2")
  case (Inl e)
  then show ?thesis by (simp add: after_reset_def)
next
  case half: (Inr half_size)
  show ?thesis
  proof (cases "generate_box_commands self 0 0 half_size")
    case (Inl e)
    with half show ?thesis by (simp add: after_reset_def)
  next
    case (Inr r)
    obtain commands self' where r: "r = (commands, self')" by (cases r)
    from Inr r have "commands \<noteq> []" by (auto dest: generate_box_commands_nonempty)
    then have "execute_all sim commands obs1 info1 w = execute_all sim commands obs2 info2 w"
      by (rule execute_all_nonempty)
    with half Inr r show ?thesis by (simp add: after_reset_def)
  qed
qed

text \<open>
  C10. With a size and a height that are integers and not negative, every command that
  the generator returns reads \<^verbatim>\<open>/fill x1 y1 z1 x2 y2 z2 minecraft:<block_type>\<close>, where
  the six coordinates are integers in decimal with \<open>x1 \<le> x2\<close>, \<open>y1 \<le> y2\<close> and
  \<open>z1 \<le> z2\<close>, and the block type is the stored one.
\<close>

theorem command_shape:
  assumes size: "size_box self = PyInt s" "0 \<le> s"
    and height: "height self = PyInt h" "0 \<le> h"
    and run: "generate_box_commands self x z y = Inr (cmds, self')"
    and c: "c \<in> set cmds"
  shows "\<exists>x1 y1 z1 x2 y2 z2.
     c = ''/fill '' @ str_int x1 @ '' '' @ str_int y1 @ '' '' @ str_int z1 @ '' ''
           @ str_int x2 @ '' '' @ str_int y2 @ '' '' @ str_int z2
           @ '' minecraft:'' @ py_str (block_type self) \<and>
     x1 \<le> x2 \<and> y1 \<le> y2 \<and> z1 \<le> z2"
proof -
  let ?b = "''minecraft:'' @ py_str (block_type self)"
  let ?lo = "\<lambda>c. c - s div 2" and ?hi = "\<lambda>c. c + s div 2"
  have shape: "\<exists>x1 y1 z1 x2 y2 z2.
     fill_command a1 a2 a3 a4 a5 a6 ?b =
       ''/fill '' @ str_int x1 @ '' '' @ str_int y1 @ '' '' @ str_int z1 @ '' ''
           @ str_int x2 @ '' '' @ str_int y2 @ '' '' @ str_int z2
           @ '' minecraft:'' @ py_str (block_type self) \<and>
     x1 \<le> x2 \<and> y1 \<le> y2 \<and> z1 \<le> z2"
    if "a1 \<le> a4" "a2 \<le> a5" "a3 \<le> a6" for a1 a2 a3 a4 a5 a6
  proof (intro exI conjI)
    show "fill_command a1 a2 a3 a4 a5 a6 ?b =
       ''/fill '' @ str_int a1 @ '' '' @ str_int a2 @ '' '' @ str_int a3 @ '' ''
           @ str_int a4 @ '' '' @ str_int a5 @ '' '' @ str_int a6
           @ '' minecraft:'' @ py_str (block_type self)"
      by (simp add: fill_command_def)
  qed (use that in simp_all)
  from \<open>0 \<le> s\<close> have half: "0 \<le> s div 2" by simp
  from run c size(1) height(1) have "c \<in> {fill_command (?lo x) y (?lo z) (?hi x) (y + h) (?lo z) ?b,
      fill_command (?lo x) y (?hi z) (?hi x) (y + h) (?hi z) ?b,
      fill_command (?lo x) y (?lo z) (?lo x) (y + h) (?hi z) ?b,
      fill_command (?hi x) y (?lo z) (?hi x) (y + h) (?hi z) ?b,
      fill_command (?lo x) y (?lo z) (?hi x) y (?hi z) ?b,
      fill_command (?lo x) (y + h) (?lo z) (?hi x) (y + h) (?hi z) ?b}"
    by (auto simp: generate_box_commands_int [OF size(1) height(1)] split: if_splits)
  then consider
      "c = fill_command (?lo x) y (?lo z) (?hi x) (y + h) (?lo z) ?b"
    | "c = fill_command (?lo x) y (?hi z) (?hi x) (y + h) (?hi z) ?b"
    | "c = fill_command (?lo x) y (?lo z) (?lo x) (y + h) (?hi z) ?b"
    | "c = fill_command (?hi x) y (?lo z) (?hi x) (y + h) (?hi z) ?b"
    | "c = fill_command (?lo x) y (?lo z) (?hi x) y (?hi z) ?b"
    | "c = fill_command (?lo x) (y + h) (?lo z) (?hi x) (y + h) (?hi z) ?b"
    by blast
  then show ?thesis
  proof cases
    case 1 with shape [of "?lo x" "?hi x" y "y + h" "?lo z" "?lo z"] half \<open>0 \<le> h\<close>
    show ?thesis by simp
  next
    case 2 with shape [of "?lo x" "?hi x" y "y + h" "?hi z" "?hi z"] half \<open>0 \<le> h\<close>
    show ?thesis by simp
  next
    case 3 with shape [of "?lo x" "?lo x" y "y + h" "?lo z" "?hi z"] half \<open>0 \<le> h\<close>
    show ?thesis by simp
  next
    case 4 with shape [of "?hi x" "?hi x" y "y + h" "?lo z" "?hi z"] half \<open>0 \<le> h\<close>
    show ?thesis by simp
  next
    case 5 with shape [of "?lo x" "?hi x" y y "?lo z" "?hi z"] half \<open>0 \<le> h\<close>
    show ?thesis by simp
  next
    case 6 with shape [of "?lo x" "?hi x" "y + h" "y + h" "?lo z" "?hi z"] half \<open>0 \<le> h\<close>
    show ?thesis by simp
  qed
qed

theorem command_shape_witness:
  "\<exists>x1 y1 z1 x2 y2 z2.
     ''/fill -12 0 -12 -12 10 12 minecraft:glass'' =
       ''/fill '' @ str_int x1 @ '' '' @ str_int y1 @ '' '' @ str_int z1 @ '' ''
         @ str_int x2 @ '' '' @ str_int y2 @ '' '' @ str_int z2
         @ '' minecraft:'' @ ''glass'' \<and>
     x1 \<le> x2 \<and> y1 \<le> y2 \<and> z1 \<le> z2"
proof -
  let ?cb = "\<lparr>size_box = PyInt 25, height = PyInt 10, block_type = PyStr ''glass'',
              include_floor = PyBool False, include_ceiling = PyBool False\<rparr>"
  let ?cmds = "[''/fill -12 0 -12 12 10 -12 minecraft:glass'',
                ''/fill -12 0 12 12 10 12 minecraft:glass'',
                ''/fill -12 0 -12 -12 10 12 minecraft:glass'',
                ''/fill 12 0 -12 12 10 12 minecraft:glass'']"
  have size: "size_box ?cb = PyInt 25" "(0::int) \<le> 25" by simp_all
  have height: "height ?cb = PyInt 10" "(0::int) \<le> 10" by simp_all
  have run: "generate_box_commands ?cb 0 0 0 = Inr (?cmds, ?cb)"
    by (simp add: generate_box_commands_def Let_def fill_command_def str_int_def
        str_nat.simps)
  have c: "''/fill -12 0 -12 -12 10 12 minecraft:glass'' \<in> set ?cmds" by simp
  from command_shape [OF size height run c] show ?thesis by simp
qed

end
